theory Spec2Isabelle
  imports Main "HOL-Library.Word"
begin

section \<open>The host interface: values of \<^verbatim>\<open>syscall/js\<close>\<close>

text \<open>
  The package under verification (\<^verbatim>\<open>wasm.go\<close> and its second, unnamed version
  \<^verbatim>\<open>part_000\<close>) is written against Go's standard library package \<^verbatim>\<open>syscall/js\<close>.
  A \<^verbatim>\<open>js.Value\<close> is a reference into the memory of the JavaScript host together with
  its kind. The accessors below follow the documentation of that package: \<^verbatim>\<open>Get\<close> panics
  when the receiver is not a JavaScript object, \<^verbatim>\<open>Int\<close> when it is not a number,
  \<^verbatim>\<open>Bool\<close> when it is not a boolean, \<^verbatim>\<open>Call\<close> when the receiver has no such method,
  while \<^verbatim>\<open>Type\<close>, \<^verbatim>\<open>Truthy\<close> and \<^verbatim>\<open>String\<close> never panic.

  A JavaScript number is a float; the Go code only observes it through \<^verbatim>\<open>Int()\<close>,
  \<^verbatim>\<open>Truthy()\<close> and the host's decimal rendering, so \<open>Number i t s\<close> carries exactly
  these three observations (for the number \<open>0.5\<close>: \<open>Number 0 True ''0.5''\<close>). Objects and
  functions are references: their properties live in the host.
\<close>

type_synonym ref = nat

datatype jstype =
  TypeUndefined | TypeNull | TypeBoolean | TypeNumber | TypeString | TypeSymbol
  | TypeObject | TypeFunction

datatype jsvalue =
  Undefined | Null | Boolean bool | Number int bool string | Str string | Symbol
  | Object ref | Function ref

text \<open>A Go panic: \<^verbatim>\<open>&js.ValueError{Method, Type}\<close>, the panic of \<^verbatim>\<open>Call\<close> on a property
  that is not a function, or a JavaScript exception rethrown as \<^verbatim>\<open>js.Error\<close>.\<close>

datatype panic =
  ValueError string jstype | NotAFunction string jstype | Error jsvalue

text \<open>
  The host: for every reference the properties that can be read on the object (its own
  and those of its prototypes, as data; a property that is not listed reads as
  \<^verbatim>\<open>undefined\<close>), the event listeners registered on it, and the next reference the
  host hands out for an object it creates.
\<close>

record host =
  heap :: "ref \<Rightarrow> (string \<times> jsvalue) list"
  listeners :: "ref \<Rightarrow> (string \<times> jsvalue) list"
  nextRef :: ref

fun Value_Type :: "jsvalue \<Rightarrow> jstype" where
  "Value_Type Undefined = TypeUndefined"
| "Value_Type Null = TypeNull"
| "Value_Type (Boolean b) = TypeBoolean"
| "Value_Type (Number i t s) = TypeNumber"
| "Value_Type (Str s) = TypeString"
| "Value_Type Symbol = TypeSymbol"
| "Value_Type (Object r) = TypeObject"
| "Value_Type (Function r) = TypeFunction"

definition isObject :: "jstype \<Rightarrow> bool" where
  "isObject t = (t = TypeObject \<or> t = TypeFunction)"

fun Value_Truthy :: "jsvalue \<Rightarrow> bool" where
  "Value_Truthy Undefined = False"
| "Value_Truthy Null = False"
| "Value_Truthy (Boolean b) = b"
| "Value_Truthy (Number i t s) = t"
| "Value_Truthy (Str s) = (s \<noteq> [])"
| "Value_Truthy Symbol = True"
| "Value_Truthy (Object r) = True"
| "Value_Truthy (Function r) = True"

fun Value_String :: "jsvalue \<Rightarrow> string" where
  "Value_String (Str s) = s"
| "Value_String Undefined = ''<undefined>''"
| "Value_String Null = ''<null>''"
| "Value_String (Boolean b) = ''<boolean: '' @ (if b then ''true'' else ''false'') @ ''>''"
| "Value_String (Number i t s) = ''<number: '' @ s @ ''>''"
| "Value_String Symbol = ''<symbol>''"
| "Value_String (Object r) = ''<object>''"
| "Value_String (Function r) = ''<function>''"

definition property :: "host \<Rightarrow> ref \<Rightarrow> string \<Rightarrow> jsvalue" where
  "property h r p = (case map_of (heap h r) p of None \<Rightarrow> Undefined | Some v \<Rightarrow> v)"

fun Value_Get :: "host \<Rightarrow> jsvalue \<Rightarrow> string \<Rightarrow> panic + jsvalue" where
  "Value_Get h (Object r) p = Inr (property h r p)"
| "Value_Get h (Function r) p = Inr (property h r p)"
| "Value_Get h v p = Inl (ValueError ''Value.Get'' (Value_Type v))"

fun Value_Int :: "jsvalue \<Rightarrow> panic + int" where
  "Value_Int (Number i t s) = Inr i"
| "Value_Int v = Inl (ValueError ''Value.Int'' (Value_Type v))"

fun Value_Bool :: "jsvalue \<Rightarrow> panic + bool" where
  "Value_Bool (Boolean b) = Inr b"
| "Value_Bool v = Inl (ValueError ''Value.Bool'' (Value_Type v))"

section \<open>The Go side: the state the package acts on\<close>

text \<open>
  What a host method does when called is the host's business: \<open>native h this m args\<close>
  gives the method's result (\<open>Inr\<close>) or the exception it throws (\<open>Inl\<close>) and the host
  afterwards. The world of the Go program is the host, the trace of the method calls made
  through \<^verbatim>\<open>Value.Call\<close>, the lines printed by \<^verbatim>\<open>fmt.Printf\<close>, and the table of
  \<^verbatim>\<open>js.FuncOf\<close> (\<^verbatim>\<open>nextFuncID uint32\<close> and \<^verbatim>\<open>funcs\<close>), whose entries are the
  captured variables of the closure of \<^verbatim>\<open>NewEventListener\<close>.
\<close>

type_synonym native =
  "host \<Rightarrow> jsvalue \<Rightarrow> string \<Rightarrow> jsvalue list \<Rightarrow> (jsvalue + jsvalue) \<times> host"

record 'f world =
  js :: host
  calls :: "(jsvalue \<times> string \<times> jsvalue list) list"
  stdout :: "string list"
  nextFuncID :: "32 word"
  funcs :: "32 word \<Rightarrow> 'f option"

text \<open>
  \<^verbatim>\<open>Value.Call\<close>: a receiver that is not an object, or a property that is not a function,
  is a panic before the host runs anything; an exception of the method is a panic after it.
\<close>

definition Value_Call ::
  "native \<Rightarrow> jsvalue \<Rightarrow> string \<Rightarrow> jsvalue list \<Rightarrow> 'f world \<Rightarrow> (panic + jsvalue) \<times> 'f world" where
  "Value_Call N v m args w =
     (case Value_Get (js w) v m of
        Inl p \<Rightarrow> (Inl (ValueError ''Value.Call'' (Value_Type v)), w)
      | Inr f \<Rightarrow>
          if Value_Type f \<noteq> TypeFunction then (Inl (NotAFunction m (Value_Type f)), w)
          else (case N (js w) v m args of
                  (r, h') \<Rightarrow>
                    (case r of Inl exn \<Rightarrow> Inl (Error exn) | Inr res \<Rightarrow> Inr res,
                     w\<lparr>js := h', calls := calls w @ [(v, m, args)]\<rparr>)))"



definition Printf :: "string \<Rightarrow> 'f world \<Rightarrow> 'f world" where
  "Printf line w = w\<lparr>stdout := stdout w @ [line]\<rparr>"

text \<open>\<^verbatim>\<open>%d\<close> of a length.\<close>

fun dec :: "nat \<Rightarrow> string" where
  "dec n = (if n < 10 then [''0123456789'' ! n]
            else dec (n div 10) @ [''0123456789'' ! (n mod 10)])"

section \<open>\<^verbatim>\<open>wasm.go\<close>: class list and debug formatting\<close>

text \<open>\<^verbatim>\<open>func GetClassList(obj js.Value) (js.Value, int)\<close>, lines 77 to 86.\<close>

definition GetClassList :: "host \<Rightarrow> jsvalue \<Rightarrow> panic + jsvalue \<times> int" where
  "GetClassList h obj =
     (case Value_Get h obj ''classList'' of
        Inl p \<Rightarrow> Inl p
      | Inr clist \<Rightarrow>
          if Value_Type clist = TypeUndefined then Inr (clist, 0)
          else (case Value_Get h clist ''length'' of
                  Inl p \<Rightarrow> Inl p
                | Inr len \<Rightarrow>
                    if Value_Type len = TypeNumber
                    then (case Value_Int len of Inl p \<Rightarrow> Inl p | Inr n \<Rightarrow> Inr (clist, n))
                    else Inr (Undefined, 0)))"

text \<open>
  \<^verbatim>\<open>func Dbg(v js.Value) string\<close>, lines 89 to 108. \<^verbatim>\<open>%s\<close> of a \<^verbatim>\<open>js.Value\<close> prints
  its \<^verbatim>\<open>String()\<close>; \<open>sb0\<close>, \<open>sb1\<close>, \<open>sb2\<close> are the string builder after each write.
\<close>

definition Dbg :: "host \<Rightarrow> jsvalue \<Rightarrow> panic + string" where
  "Dbg h v =
     (if Value_Type v = TypeObject then
        (let sb0 = ''<obj'' in
         case Value_Get h v ''id'' of
           Inl p \<Rightarrow> Inl p
         | Inr ident \<Rightarrow>
        (let sb1 = (if Value_Type ident \<noteq> TypeUndefined \<and> Value_String ident \<noteq> ''''
                    then sb0 @ '' id='' @ Value_String ident else sb0) in
         case Value_Get h v ''type'' of
           Inl p \<Rightarrow> Inl p
         | Inr typ \<Rightarrow>
        (let sb2 = (if Value_Type typ \<noteq> TypeUndefined
                    then sb1 @ '' type='' @ Value_String typ else sb1) in
         case GetClassList h v of
           Inl p \<Rightarrow> Inl p
         | Inr (clist, n) \<Rightarrow>
             if n > 0
             then (case Value_Get h clist ''value'' of
                     Inl p \<Rightarrow> Inl p
                   | Inr cls \<Rightarrow> Inr (sb2 @ '' cls='' @ Value_String cls @ ''>''))
             else Inr (sb2 @ ''>''))))
      else Inr (Value_String v))"

section \<open>\<^verbatim>\<open>part_000\<close>: the class list as a view, and debug formatting\<close>

text \<open>\<^verbatim>\<open>type ClassList js.Value\<close>.\<close>

datatype ClassList = ClassList jsvalue

fun js_Value :: "ClassList \<Rightarrow> jsvalue" where
  "js_Value (ClassList v) = v"

text \<open>\<^verbatim>\<open>func GetClassList(obj js.Value) ClassList\<close>, lines 81 to 90 of \<^verbatim>\<open>part_000\<close>.\<close>

definition GetClassList_part000 :: "host \<Rightarrow> jsvalue \<Rightarrow> panic + ClassList" where
  "GetClassList_part000 h obj =
     (case Value_Get h obj ''classList'' of
        Inl p \<Rightarrow> Inl p
      | Inr clist \<Rightarrow>
          if Value_Type clist = TypeUndefined then Inr (ClassList clist)
          else (case Value_Get h clist ''length'' of
                  Inl p \<Rightarrow> Inl p
                | Inr len \<Rightarrow>
                    if Value_Type len \<noteq> TypeNumber then Inr (ClassList Undefined)
                    else (case Value_Int len of
                            Inl p \<Rightarrow> Inl p
                          | Inr n \<Rightarrow>
                              if n > 0 then Inr (ClassList clist)
                              else Inr (ClassList Undefined))))"

text \<open>The methods of \<^verbatim>\<open>ClassList\<close>, lines 93 to 126 of \<^verbatim>\<open>part_000\<close>.\<close>

definition ClassList_Contains ::
  "native \<Rightarrow> ClassList \<Rightarrow> string \<Rightarrow> 'f world \<Rightarrow> (panic + bool) \<times> 'f world" where
  "ClassList_Contains N c s w =
     (let clist = js_Value c in
      if Value_Type clist = TypeUndefined then (Inr False, w)
      else (case Value_Call N clist ''contains'' [Str s] w of
              (Inl p, w') \<Rightarrow> (Inl p, w')
            | (Inr r, w') \<Rightarrow> (Value_Bool r, w')))"

definition ClassList_Add ::
  "native \<Rightarrow> ClassList \<Rightarrow> string \<Rightarrow> 'f world \<Rightarrow> (panic + unit) \<times> 'f world" where
  "ClassList_Add N c s w =
     (let clist = js_Value c in
      if Value_Type clist = TypeUndefined then (Inr (), w)
      else (case Value_Call N clist ''add'' [Str s] w of
              (Inl p, w') \<Rightarrow> (Inl p, w')
            | (Inr r, w') \<Rightarrow> (Inr (), w')))"

definition ClassList_Remove ::
  "native \<Rightarrow> ClassList \<Rightarrow> string \<Rightarrow> 'f world \<Rightarrow> (panic + unit) \<times> 'f world" where
  "ClassList_Remove N c s w =
     (let clist = js_Value c in
      if Value_Type clist = TypeUndefined then (Inr (), w)
      else (case Value_Call N clist ''remove'' [Str s] w of
              (Inl p, w') \<Rightarrow> (Inl p, w')
            | (Inr r, w') \<Rightarrow> (Inr (), w')))"

definition ClassList_String :: "host \<Rightarrow> ClassList \<Rightarrow> panic + string" where
  "ClassList_String h c =
     (let clist = js_Value c in
      if Value_Type clist = TypeUndefined then Inr ''''
      else (case Value_Get h (js_Value c) ''value'' of
              Inl p \<Rightarrow> Inl p
            | Inr v \<Rightarrow> Inr (Value_String v)))"

text \<open>\<^verbatim>\<open>func Dbg(v js.Value) string\<close>, lines 129 to 149 of \<^verbatim>\<open>part_000\<close>.\<close>

definition Dbg_part000 :: "host \<Rightarrow> jsvalue \<Rightarrow> panic + string" where
  "Dbg_part000 h v =
     (if Value_Type v = TypeObject then
        (let sb0 = ''<obj'' in
         case Value_Get h v ''id'' of
           Inl p \<Rightarrow> Inl p
         | Inr ident \<Rightarrow>
        (let sb1 = (if Value_Type ident \<noteq> TypeUndefined \<and> Value_String ident \<noteq> ''''
                    then sb0 @ '' id='' @ Value_String ident else sb0) in
         case Value_Get h v ''type'' of
           Inl p \<Rightarrow> Inl p
         | Inr typ \<Rightarrow>
        (let sb2 = (if Value_Type typ \<noteq> TypeUndefined
                    then sb1 @ '' type='' @ Value_String typ else sb1) in
         case GetClassList_part000 h v of
           Inl p \<Rightarrow> Inl p
         | Inr clist \<Rightarrow>
        (case ClassList_String h clist of
           Inl p \<Rightarrow> Inl p
         | Inr cls \<Rightarrow>
             Inr ((if cls \<noteq> '''' then sb2 @ '' cls='' @ cls else sb2) @ ''>'')))))
      else Inr (Value_String v))"

section \<open>\<^verbatim>\<open>wasm.go\<close>: the document holder\<close>

record DocHolder =
  doc :: jsvalue

text \<open>
  \<^verbatim>\<open>func (g *DocHolder) GetElementByID(id string) (js.Value, error)\<close>, lines 24 to 30.
  The error is its message, \<open>None\<close> is \<^verbatim>\<open>nil\<close>; \<open>q\<close> is the quoting of \<^verbatim>\<open>%q\<close>
  (\<^verbatim>\<open>strconv.Quote\<close>), which belongs to \<^verbatim>\<open>fmt\<close>.
\<close>

definition GetElementByID ::
  "(string \<Rightarrow> string) \<Rightarrow> native \<Rightarrow> DocHolder \<Rightarrow> string \<Rightarrow> 'f world
     \<Rightarrow> (panic + jsvalue \<times> string option) \<times> 'f world" where
  "GetElementByID q N g ident w =
     (case Value_Call N (doc g) ''getElementById'' [Str ident] w of
        (Inl p, w') \<Rightarrow> (Inl p, w')
      | (Inr elt, w') \<Rightarrow>
          if \<not> Value_Truthy elt
          then (Inr (Undefined, Some (''cannot find elt with id '' @ q ident)), w')
          else (Inr (elt, None), w'))"

text \<open>\<^verbatim>\<open>func (g *DocHolder) CreateElement(typ string) js.Value\<close>, lines 32 to 34.\<close>

definition CreateElement ::
  "native \<Rightarrow> DocHolder \<Rightarrow> string \<Rightarrow> 'f world \<Rightarrow> (panic + jsvalue) \<times> 'f world" where
  "CreateElement N g typ w = Value_Call N (doc g) ''createElement'' [Str typ] w"

section \<open>\<^verbatim>\<open>wasm.go\<close>: the event listener\<close>


text \<open>
  The closure handed to \<^verbatim>\<open>js.FuncOf\<close> at lines 46 to 61, with its captured variables
  \<open>evt\<close> and \<open>handler\<close> as arguments. The handler is the caller's code: it returns a value
  of type \<^verbatim>\<open>any\<close> and acts on a state \<open>u\<close> of its own. The closure returns \<open>None\<close> for
  \<^verbatim>\<open>nil\<close> and \<open>Some r\<close> for the handler's result. Go evaluates the arguments of the last
  \<^verbatim>\<open>Printf\<close> from left to right.
\<close>

definition listener ::
  "(string \<Rightarrow> string) \<Rightarrow> string \<Rightarrow> (jsvalue \<Rightarrow> jsvalue \<Rightarrow> 'u \<Rightarrow> 'a \<times> 'u)
     \<Rightarrow> jsvalue \<Rightarrow> jsvalue list \<Rightarrow> 'f world \<Rightarrow> 'u \<Rightarrow> (panic + 'a option) \<times> 'f world \<times> 'u" where
  "listener q evt handler this args w u =
     (if \<not> Value_Truthy this
      then (Inr None, Printf (''event '' @ q evt @ '' this is not truthy\<newline>'') w, u)
      else if length args \<noteq> 1
      then (Inr None,
            Printf (''event '' @ q evt @ '' len(args)='' @ dec (length args) @ ''\<newline>'') w, u)
      else if \<not> Value_Truthy (args ! 0)
      then (Inr None, Printf (''event '' @ q evt @ '' arg[0] is not truthy\<newline>'') w, u)
      else
        (case Dbg (js w) this of
           Inl p \<Rightarrow> (Inl p, w, u)
         | Inr d1 \<Rightarrow>
        (case Dbg (js w) (args ! 0) of
           Inl p \<Rightarrow> (Inl p, w, u)
         | Inr d2 \<Rightarrow>
        (case Value_Get (js w) (args ! 0) ''target'' of
           Inl p \<Rightarrow> (Inl p, w, u)
         | Inr target \<Rightarrow>
        (case Dbg (js w) target of
           Inl p \<Rightarrow> (Inl p, w, u)
         | Inr d3 \<Rightarrow>
             (let w' = Printf (''Event '' @ q evt @ '' called on '' @ d1 @ '' evt='' @ d2
                               @ '' target='' @ d3 @ ''\<newline>'') w
              in case handler this (args ! 0) u of (r, u') \<Rightarrow> (Inr (Some r), w', u')))))))"




section \<open>The host's event targets\<close>

text \<open>
  The listener list of an event target, as the DOM standard describes it:
  \<^verbatim>\<open>addEventListener\<close> appends the pair of event name and callable unless the list has it
  already, \<^verbatim>\<open>removeEventListener\<close> removes that pair, and a dispatch of an event on the
  target invokes the callables registered there under the event's name. Callables are
  compared by reference. Every other method returns \<^verbatim>\<open>undefined\<close> and changes nothing.
\<close>

fun ref_of :: "jsvalue \<Rightarrow> ref option" where
  "ref_of (Object r) = Some r"
| "ref_of (Function r) = Some r"
| "ref_of v = None"

definition dom_native :: native where
  "dom_native h this m args =
     (case (ref_of this, args) of
        (Some r, [Str n, f]) \<Rightarrow>
          if m = ''addEventListener''
          then (Inr Undefined,
                h\<lparr>listeners := (listeners h)
                      (r := if (n, f) \<in> set (listeners h r) then listeners h r
                            else listeners h r @ [(n, f)])\<rparr>)
          else if m = ''removeEventListener''
          then (Inr Undefined,
                h\<lparr>listeners := (listeners h)(r := filter (\<lambda>l. l \<noteq> (n, f)) (listeners h r))\<rparr>)
          else (Inr Undefined, h)
      | _ \<Rightarrow> (Inr Undefined, h))"



text \<open>The class list of a value can be read: the property is absent, or an object.\<close>

definition class_list_readable :: "host \<Rightarrow> jsvalue \<Rightarrow> bool" where
  "class_list_readable h v =
     (case Value_Get h v ''classList'' of
        Inl p \<Rightarrow> False
      | Inr c \<Rightarrow> Value_Type c = TypeUndefined \<or> isObject (Value_Type c))"


section \<open>Concrete hosts\<close>

text \<open>A host given by the properties of its objects, with no listener registered.\<close>

definition host_of :: "(ref \<times> (string \<times> jsvalue) list) list \<Rightarrow> host" where
  "host_of objs =
     \<lparr>heap = (\<lambda>r. case map_of objs r of None \<Rightarrow> [] | Some ps \<Rightarrow> ps),
      listeners = (\<lambda>r. []),
      nextRef = Suc (fold max (map fst objs) 0)\<rparr>"

definition world_of :: "host \<Rightarrow> 'f world" where
  "world_of h = \<lparr>js = h, calls = [], stdout = [], nextFuncID = 1, funcs = (\<lambda>i. None)\<rparr>"

text \<open>
  \<^verbatim>\<open>%q\<close> on a string of printable ASCII characters with no quote and no backslash in
  it: the string between two quotes.
\<close>

definition ascii_quote :: "string \<Rightarrow> string" where
  "ascii_quote s = CHR 0x22 # s @ [CHR 0x22]"

text \<open>
  A document whose \<^verbatim>\<open>getElementById\<close> looks the identifier up in a table and returns
  \<^verbatim>\<open>null\<close> when it is not there, as the DOM does.
\<close>

definition doc_native :: "(string \<times> jsvalue) list \<Rightarrow> native" where
  "doc_native elts h this m args =
     (case args of
        [Str i] \<Rightarrow>
          if m = ''getElementById''
          then (Inr (case map_of elts i of None \<Rightarrow> Null | Some e \<Rightarrow> e), h)
          else (Inr Undefined, h)
      | _ \<Rightarrow> (Inr Undefined, h))"

definition doc_host :: host where
  "doc_host = host_of [(0, [(''getElementById'', Function 1)]), (2, [(''id'', Str ''app'')])]"

text \<open>
  Hosts with one element, object 1, and its class list, object 2; the references 3 to 7
  are the methods of the two.
\<close>

definition class_host :: host where
  "class_host = host_of
     [(1, [(''id'', Str ''foo''), (''classList'', Object 2),
           (''addEventListener'', Function 6), (''removeEventListener'', Function 7)]),
      (2, [(''length'', Number 1 True ''1''), (''value'', Str ''bar''),
           (''contains'', Function 3), (''add'', Function 4), (''remove'', Function 5)]),
      (7, [])]"

definition plain_host :: host where
  "plain_host = host_of [(1, [(''id'', Str ''foo'')])]"



definition numeric_id_host :: host where
  "numeric_id_host = host_of [(1, [(''id'', Number 7 True ''7''), (''type'', Str ''update'')])]"

definition null_class_host :: host where
  "null_class_host = host_of [(1, [(''id'', Str ''foo''), (''classList'', Null)])]"

section \<open>The specification's view of class lists and of the debug format\<close>

text \<open>
  The size a class list reports is \<^verbatim>\<open>Int()\<close> of its \<^verbatim>\<open>length\<close>, when that is a number;
  its classes are the \<^verbatim>\<open>String()\<close> of its \<^verbatim>\<open>value\<close>.
\<close>

definition numeric_length :: "host \<Rightarrow> jsvalue \<Rightarrow> bool" where
  "numeric_length h clist =
     (case Value_Get h clist ''length'' of
        Inl p \<Rightarrow> False
      | Inr len \<Rightarrow> Value_Type len = TypeNumber)"

definition positive_length :: "host \<Rightarrow> jsvalue \<Rightarrow> bool" where
  "positive_length h clist =
     (case Value_Get h clist ''length'' of
        Inl p \<Rightarrow> False
      | Inr len \<Rightarrow> (case Value_Int len of Inl p \<Rightarrow> False | Inr n \<Rightarrow> 0 < n))"

definition class_value :: "host \<Rightarrow> jsvalue \<Rightarrow> string" where
  "class_value h clist =
     (case Value_Get h clist ''value'' of Inl p \<Rightarrow> '''' | Inr v \<Rightarrow> Value_String v)"

text \<open>The three optional segments of \<^verbatim>\<open><obj id=... type=... cls=...>\<close> for the object \<open>r\<close>.\<close>

definition id_segment :: "host \<Rightarrow> ref \<Rightarrow> string" where
  "id_segment h r =
     (if Value_Type (property h r ''id'') \<noteq> TypeUndefined
         \<and> Value_String (property h r ''id'') \<noteq> ''''
      then '' id='' @ Value_String (property h r ''id'') else '''')"

definition type_segment :: "host \<Rightarrow> ref \<Rightarrow> string" where
  "type_segment h r =
     (if Value_Type (property h r ''type'') \<noteq> TypeUndefined
      then '' type='' @ Value_String (property h r ''type'') else '''')"

definition cls_segment :: "host \<Rightarrow> ref \<Rightarrow> string" where
  "cls_segment h r =
     (if positive_length h (property h r ''classList'')
      then '' cls='' @ class_value h (property h r ''classList'') else '''')"



section \<open>Uses of a listener\<close>





section \<open>Properties of the document holder\<close>

text \<open>
  Claim C2. Whenever the host's lookup returns a value \<open>elt\<close>, \<open>GetElementByID\<close> returns
  \<open>elt\<close> with no error if \<open>elt\<close> is truthy, and otherwise an error whose message is
  \<^verbatim>\<open>cannot find elt with id\<close> followed by the quoted identifier. A value returned with
  no error is truthy, whatever the host does.
\<close>

theorem GetElementByID_result:
  "(Value_Call N (doc g) ''getElementById'' [Str ident] w = (Inr elt, w') \<longrightarrow>
      GetElementByID q N g ident w =
        (if Value_Truthy elt then (Inr (elt, None), w')
         else (Inr (Undefined, Some (''cannot find elt with id '' @ q ident)), w')))
   \<and> (GetElementByID q N g ident w = (Inr (v, None), w'') \<longrightarrow> Value_Truthy v)"
  by (auto simp: GetElementByID_def split: prod.splits sum.splits if_splits)

lemma doc_lookup:
  "Value_Call (doc_native [(''app'', Object 2)]) (Object 0) ''getElementById'' [Str i]
       (world_of doc_host :: unit world)
     = (Inr (if i = ''app'' then Object 2 else Null),
        (world_of doc_host)\<lparr>calls := [(Object 0, ''getElementById'', [Str i])]\<rparr>)"
  by (simp add: Value_Call_def doc_native_def doc_host_def host_of_def world_of_def property_def)

theorem GetElementByID_result_witness:
  "GetElementByID ascii_quote (doc_native [(''app'', Object 2)]) \<lparr>doc = Object 0\<rparr> ''nope''
       (world_of doc_host :: unit world)
     = (Inr (Undefined, Some (''cannot find elt with id '' @ ascii_quote ''nope'')),
        (world_of doc_host)\<lparr>calls := [(Object 0, ''getElementById'', [Str ''nope''])]\<rparr>)
   \<and> GetElementByID ascii_quote (doc_native [(''app'', Object 2)]) \<lparr>doc = Object 0\<rparr> ''app''
       (world_of doc_host :: unit world)
     = (Inr (Object 2, None),
        (world_of doc_host)\<lparr>calls := [(Object 0, ''getElementById'', [Str ''app''])]\<rparr>)
   \<and> Value_Truthy (Object 2)"
proof -
  let ?N = "doc_native [(''app'', Object 2)]"
  let ?g = "\<lparr>doc = Object 0\<rparr>"
  let ?w = "world_of doc_host :: unit world"
  have a: "Value_Call ?N (doc ?g) ''getElementById'' [Str ''nope''] ?w
             = (Inr Null, ?w\<lparr>calls := [(Object 0, ''getElementById'', [Str ''nope''])]\<rparr>)"
    using doc_lookup [of "''nope''"] by simp
  have b: "Value_Call ?N (doc ?g) ''getElementById'' [Str ''app''] ?w
             = (Inr (Object 2), ?w\<lparr>calls := [(Object 0, ''getElementById'', [Str ''app''])]\<rparr>)"
    using doc_lookup [of "''app''"] by simp
  from GetElementByID_result [of ?N ?g "''nope''" ?w Null _ ascii_quote] a
  have c: "GetElementByID ascii_quote ?N ?g ''nope'' ?w
     = (Inr (Undefined, Some (''cannot find elt with id '' @ ascii_quote ''nope'')),
        ?w\<lparr>calls := [(Object 0, ''getElementById'', [Str ''nope''])]\<rparr>)"
    by simp
  from GetElementByID_result [of ?N ?g "''app''" ?w "Object 2" _ ascii_quote] b
  have d: "GetElementByID ascii_quote ?N ?g ''app'' ?w
     = (Inr (Object 2, None), ?w\<lparr>calls := [(Object 0, ''getElementById'', [Str ''app''])]\<rparr>)"
    by simp
  from GetElementByID_result [of ?N ?g "''app''" ?w "Object 2" _ ascii_quote "Object 2"] d
  have e: "Value_Truthy (Object 2)" by simp
  from c d e show ?thesis by simp
qed

text \<open>
  Claim C10. When \<open>GetElementByID\<close> returns an error, the value beside it is
  \<^verbatim>\<open>js.Undefined()\<close>, not the falsy value the host's lookup produced.
\<close>

theorem GetElementByID_error_value:
  "GetElementByID q N g ident w = (Inr (v, Some err), w') \<Longrightarrow> v = Undefined"
  by (auto simp: GetElementByID_def split: prod.splits sum.splits if_splits)

theorem GetElementByID_error_value_witness:
  "Value_Call (doc_native [(''app'', Object 2)]) (Object 0) ''getElementById'' [Str ''nope'']
       (world_of doc_host :: unit world)
     = (Inr Null, (world_of doc_host)\<lparr>calls := [(Object 0, ''getElementById'', [Str ''nope''])]\<rparr>)
   \<and> GetElementByID ascii_quote (doc_native [(''app'', Object 2)]) \<lparr>doc = Object 0\<rparr> ''nope''
       (world_of doc_host :: unit world)
     = (Inr (Undefined, Some (''cannot find elt with id '' @ ascii_quote ''nope'')),
        (world_of doc_host)\<lparr>calls := [(Object 0, ''getElementById'', [Str ''nope''])]\<rparr>)"
proof -
  let ?N = "doc_native [(''app'', Object 2)]"
  let ?g = "\<lparr>doc = Object 0\<rparr>"
  let ?w = "world_of doc_host :: unit world"
  let ?w' = "?w\<lparr>calls := [(Object 0, ''getElementById'', [Str ''nope''])]\<rparr>"
  have a: "Value_Call ?N (Object 0) ''getElementById'' [Str ''nope''] ?w = (Inr Null, ?w')"
    using doc_lookup [of "''nope''"] by simp
  obtain v where c: "GetElementByID ascii_quote ?N ?g ''nope'' ?w
     = (Inr (v, Some (''cannot find elt with id '' @ ascii_quote ''nope'')), ?w')"
    using a by (simp add: GetElementByID_def)
  from GetElementByID_error_value [OF c] have "v = Undefined" .
  with a c show ?thesis by simp
qed

section \<open>Properties of the class list\<close>

lemma Type_cases:
  "Value_Type v = TypeUndefined \<longleftrightarrow> v = Undefined"
  "Value_Type v = TypeNumber \<longleftrightarrow> (\<exists>i t s. v = Number i t s)"
  "Value_Type v = TypeObject \<longleftrightarrow> (\<exists>r. v = Object r)"
  "isObject (Value_Type v) \<longleftrightarrow> (\<exists>r. v = Object r \<or> v = Function r)"
  by (cases v; auto simp: isObject_def)+

lemma Int_Inr: "Value_Int v = Inr n \<longleftrightarrow> (\<exists>t s. v = Number n t s)"
  by (cases v) auto

lemma Get_Inr:
  "Value_Get h v p = Inr x \<longleftrightarrow> (\<exists>r. (v = Object r \<or> v = Function r) \<and> x = property h r p)"
  by (cases v) auto


text \<open>
  Claim C3. On a class list in the unavailable state \<open>Contains\<close> is false, \<open>String\<close> is
  empty, and \<open>Add\<close> and \<open>Remove\<close> return with the world as it was: no host call is made
  (the trace of calls is part of the world), whatever the host's methods would do.
\<close>

theorem ClassList_unavailable:
  "Value_Type (js_Value c) = TypeUndefined \<Longrightarrow>
     ClassList_Contains N c s w = (Inr False, w)
     \<and> ClassList_String (js w) c = Inr ''''
     \<and> ClassList_Add N c s w = (Inr (), w)
     \<and> ClassList_Remove N c s w = (Inr (), w)"
  by (simp add: ClassList_Contains_def ClassList_String_def ClassList_Add_def ClassList_Remove_def)

lemma plain_view: "GetClassList_part000 plain_host (Object 1) = Inr (ClassList Undefined)"
  by (simp add: GetClassList_part000_def plain_host_def host_of_def property_def)

theorem ClassList_unavailable_witness:
  "GetClassList_part000 plain_host (Object 1) = Inr (ClassList Undefined)
   \<and> Value_Type (js_Value (ClassList Undefined)) = TypeUndefined
   \<and> ClassList_Contains dom_native (ClassList Undefined) ''bar'' (world_of plain_host :: unit world)
       = (Inr False, world_of plain_host)
   \<and> ClassList_String plain_host (ClassList Undefined) = Inr ''''
   \<and> ClassList_Add dom_native (ClassList Undefined) ''bar'' (world_of plain_host :: unit world)
       = (Inr (), world_of plain_host)
   \<and> ClassList_Remove dom_native (ClassList Undefined) ''bar'' (world_of plain_host :: unit world)
       = (Inr (), world_of plain_host)"
proof -
  have t: "Value_Type (js_Value (ClassList Undefined)) = TypeUndefined" by simp
  have j: "js (world_of plain_host :: unit world) = plain_host" by (simp add: world_of_def)
  from ClassList_unavailable [OF t, of dom_native "''bar''" "world_of plain_host :: unit world"]
    plain_view t j
  show ?thesis by simp
qed

lemma GetClassList_readable:
  assumes "Value_Get h obj ''classList'' = Inr clist"
    and "Value_Type clist = TypeUndefined \<or> isObject (Value_Type clist)"
  shows "GetClassList_part000 h obj
           = Inr (ClassList (if positive_length h clist then clist else Undefined))"
    and "\<exists>c n. GetClassList h obj = Inr (c, n) \<and> (0 < n) = positive_length h clist
           \<and> (c = Undefined) = (Value_Type clist = TypeUndefined \<or> \<not> numeric_length h clist)
           \<and> (c = Undefined \<or> c = clist)"
  using assms
  by (auto simp: GetClassList_part000_def GetClassList_def positive_length_def numeric_length_def
      Type_cases Int_Inr split: sum.splits)




section \<open>Properties of the debug format\<close>

lemma Dbg_Object:
  "Dbg h (Object r) =
     (case GetClassList h (Object r) of
        Inl p \<Rightarrow> Inl p
      | Inr (c, n) \<Rightarrow>
          if 0 < n
          then (case Value_Get h c ''value'' of
                  Inl p \<Rightarrow> Inl p
                | Inr cls \<Rightarrow>
                    Inr (''<obj'' @ id_segment h r @ type_segment h r
                         @ '' cls='' @ Value_String cls @ ''>''))
          else Inr (''<obj'' @ id_segment h r @ type_segment h r @ ''>''))"
  by (simp add: Dbg_def id_segment_def type_segment_def Let_def split: sum.split prod.split)



lemma GetClassList_positive:
  "GetClassList h v = Inr (c, n) \<Longrightarrow> 0 < n \<Longrightarrow> isObject (Value_Type c)"
  by (auto simp: GetClassList_def Type_cases Int_Inr Get_Inr split: sum.splits if_splits)

lemma GetClassList_Inr_prop:
  assumes "GetClassList h (Object r) = Inr (c, n)" and "0 < n"
  shows "c = property h r ''classList''"
  using assms by (auto simp: GetClassList_def split: if_splits sum.splits)


lemma Dbg_readable:
  assumes "class_list_readable h (Object r)"
  shows "Dbg h (Object r)
           = Inr (''<obj'' @ id_segment h r @ type_segment h r @ cls_segment h r @ ''>'')"
proof -
  let ?clist = "property h r ''classList''"
  have g: "Value_Get h (Object r) ''classList'' = Inr ?clist" by simp
  from assms have o: "Value_Type ?clist = TypeUndefined \<or> isObject (Value_Type ?clist)"
    by (simp add: class_list_readable_def)
  from GetClassList_readable(2) [OF g o] obtain c n where
    cn: "GetClassList h (Object r) = Inr (c, n)" and pos: "(0 < n) = positive_length h ?clist"
    and c: "c = Undefined \<or> c = ?clist"
    by blast
  show ?thesis
  proof (cases "0 < n")
    case False
    with cn pos show ?thesis by (simp add: Dbg_Object cls_segment_def)
  next
    case True
    with cn have c': "c = ?clist" using GetClassList_Inr_prop by blast
    from True cn have "isObject (Value_Type c)" using GetClassList_positive by blast
    then obtain r' where "c = Object r' \<or> c = Function r'" by (auto simp: Type_cases)
    then have "Value_Get h c ''value'' = Inr (property h r' ''value'')" by auto
    with True cn pos c' show ?thesis
      by (simp add: Dbg_Object cls_segment_def class_value_def)
  qed
qed

text \<open>
  Claim C5, as amended. For an object whose class list is absent or an object, \<open>Dbg\<close>
  returns \<^verbatim>\<open><obj\<close>, the three optional segments and \<^verbatim>\<open>>\<close>. The id segment is there
  exactly when the id attribute is not undefined and its \<^verbatim>\<open>String()\<close> is not empty (which
  holds for every id that is not a string: \<^verbatim>\<open><null>\<close>, \<^verbatim>\<open><number: 7>\<close>), the type
  segment exactly when the type attribute is not undefined, the cls segment exactly when
  the class list reports a positive size. For a value that is no object \<open>Dbg\<close> returns its
  \<^verbatim>\<open>String()\<close>. The object with id \<^verbatim>\<open>foo\<close>, no type and the class list \<^verbatim>\<open>bar\<close> gives
  \<^verbatim>\<open><obj id=foo cls=bar>\<close>.
\<close>

theorem Dbg_format:
  "(class_list_readable h (Object r) \<longrightarrow>
      Dbg h (Object r)
        = Inr (''<obj'' @ id_segment h r @ type_segment h r @ cls_segment h r @ ''>''))
   \<and> (Value_Type v \<noteq> TypeObject \<longrightarrow> Dbg h v = Inr (Value_String v))
   \<and> Dbg class_host (Object 1) = Inr ''<obj id=foo cls=bar>''"
proof (intro conjI impI)
  assume "class_list_readable h (Object r)"
  then show "Dbg h (Object r)
      = Inr (''<obj'' @ id_segment h r @ type_segment h r @ cls_segment h r @ ''>'')"
    by (rule Dbg_readable)
next
  assume "Value_Type v \<noteq> TypeObject"
  then show "Dbg h v = Inr (Value_String v)" by (simp add: Dbg_def)
next
  show "Dbg class_host (Object 1) = Inr ''<obj id=foo cls=bar>''"
    by (simp add: Dbg_def GetClassList_def class_host_def host_of_def property_def)
qed

theorem Dbg_format_witness:
  "class_list_readable class_host (Object 1)
   \<and> id_segment class_host 1 = '' id=foo''
   \<and> type_segment class_host 1 = ''''
   \<and> cls_segment class_host 1 = '' cls=bar''
   \<and> Dbg class_host (Object 1) = Inr ''<obj id=foo cls=bar>''
   \<and> Value_Type (Str ''hello'') \<noteq> TypeObject
   \<and> Dbg class_host (Str ''hello'') = Inr ''hello''"
proof -
  have r: "class_list_readable class_host (Object 1)"
    by (simp add: class_list_readable_def class_host_def host_of_def property_def isObject_def)
  have i: "id_segment class_host 1 = '' id=foo''"
    by (simp add: id_segment_def class_host_def host_of_def property_def)
  have t: "type_segment class_host 1 = ''''"
    by (simp add: type_segment_def class_host_def host_of_def property_def)
  have c: "cls_segment class_host 1 = '' cls=bar''"
    by (simp add: cls_segment_def positive_length_def class_value_def class_host_def
        host_of_def property_def)
  have s: "Value_Type (Str ''hello'') \<noteq> TypeObject" by simp
  from Dbg_format [of class_host 1 "Str ''hello''"] r i t c s show ?thesis by simp
qed

text \<open>
  The claim as stated fails where the id attribute is not a string: the segment is
  written with the \<^verbatim>\<open>String()\<close> of the number.
\<close>

theorem Dbg_numeric_id_counterexample:
  "Dbg numeric_id_host (Object 1) = Inr ''<obj id=<number: 7> type=update>''"
  by (simp add: Dbg_def GetClassList_def numeric_id_host_def host_of_def property_def)

text \<open>
  Claim C6 does not hold of the code. \<open>Dbg\<close> panics on an object whose \<^verbatim>\<open>classList\<close> is
  \<^verbatim>\<open>null\<close>: \<^verbatim>\<open>GetClassList\<close> guards the undefined value only and then calls \<^verbatim>\<open>Get\<close>
  on the class list. Both versions of the file do so.
\<close>

theorem Dbg_panics_on_null_classList:
  "Dbg null_class_host (Object 1) = Inl (ValueError ''Value.Get'' TypeNull)
   \<and> Dbg_part000 null_class_host (Object 1) = Inl (ValueError ''Value.Get'' TypeNull)"
  by (simp add: Dbg_def Dbg_part000_def GetClassList_def GetClassList_part000_def
      null_class_host_def host_of_def property_def)






section \<open>Properties of the event listener\<close>

text \<open>
  What the closure does by design: a failed validation prints its diagnostic, returns
  \<^verbatim>\<open>nil\<close> and leaves the handler's state alone; when the three validations hold and the
  trace line can be formatted, the handler runs once on the subject and the event.
\<close>

lemma listener_rejects:
  assumes "\<not> (Value_Truthy this \<and> length args = 1 \<and> Value_Truthy (args ! 0))"
  shows "listener q evt handler this args w u =
           (Inr None,
            Printf (''event '' @ q evt @
                    (if \<not> Value_Truthy this then '' this is not truthy\<newline>''
                     else if length args \<noteq> 1
                     then '' len(args)='' @ dec (length args) @ ''\<newline>''
                     else '' arg[0] is not truthy\<newline>'')) w,
            u)"
  using assms by (auto simp: listener_def)

lemma listener_forwards:
  assumes "Value_Truthy this" and "Value_Truthy ev"
    and "Dbg (js w) this = Inr d1" and "Dbg (js w) ev = Inr d2"
    and "Value_Get (js w) ev ''target'' = Inr target" and "Dbg (js w) target = Inr d3"
  shows "listener q evt handler this [ev] w u =
           (Inr (Some (fst (handler this ev u))),
            Printf (''Event '' @ q evt @ '' called on '' @ d1 @ '' evt='' @ d2
                    @ '' target='' @ d3 @ ''\<newline>'') w,
            snd (handler this ev u))"
  using assms by (simp add: listener_def split: prod.split)

text \<open>
  Claim C1 does not hold of the code. With a truthy subject and one truthy event argument
  that is a string, the three validations hold, and the closure panics in
  \<^verbatim>\<open>args[0].Get("target")\<close> while it builds the trace line: the handler is not invoked
  (its state \<open>u\<close> is as before) and nothing is returned.
\<close>

theorem listener_panics_on_string_event:
  "Value_Truthy (Object 1) \<and> length [Str ''click''] = 1 \<and> Value_Truthy ([Str ''click''] ! 0)
   \<and> listener q evt handler (Object 1) [Str ''click''] (world_of plain_host) u
       = (Inl (ValueError ''Value.Get'' TypeString), world_of plain_host, u)"
  by (simp add: listener_def Dbg_def GetClassList_def plain_host_def host_of_def property_def
      world_of_def)














end
